theory Spec2Isabelle
  imports Main "HOL-Library.Word"
begin

unbundle bit_operations_syntax

section \<open>CANopenTerm: the CAN channel (can.c) and the SDO client (sdo_client.c)\<close>

subsection \<open>Machine types\<close>

type_synonym Uint8 = "8 word"
type_synonym Uint16 = "16 word"
type_synonym Uint32 = "32 word"

subsection \<open>The PCAN-Basic driver boundary\<close>

text \<open>
  can.c and sdo_client.c include the vendor's header PCANBasic.h, which is not part of
  the repository. The bit rates it names are kept symbolic, one constructor per macro
  used by the switch of \<open>can_monitor\<close>; the two status codes the code compares with and
  the message type carry the values of that header.
\<close>

datatype TPCANBaudrate =
    PCAN_BAUD_1M | PCAN_BAUD_800K | PCAN_BAUD_500K | PCAN_BAUD_250K
  | PCAN_BAUD_125K | PCAN_BAUD_100K | PCAN_BAUD_95K | PCAN_BAUD_83K
  | PCAN_BAUD_50K | PCAN_BAUD_47K | PCAN_BAUD_33K | PCAN_BAUD_20K
  | PCAN_BAUD_10K | PCAN_BAUD_5K

definition PCAN_ERROR_OK :: Uint32 where
  "PCAN_ERROR_OK = 0x00000"

definition PCAN_ERROR_ILLHW :: Uint32 where
  "PCAN_ERROR_ILLHW = 0x01400"

definition PCAN_MESSAGE_STANDARD :: Uint8 where
  "PCAN_MESSAGE_STANDARD = 0x00"

text \<open>The driver's message structure: a 32-bit identifier, type, length, eight data bytes.\<close>

record TPCANMsg =
  ID :: Uint32
  MSGTYPE :: Uint8
  LEN :: Uint8
  DATA :: "Uint8 list"

text \<open>The initialiser \<^verbatim>\<open>TPCANMsg pcan_message = { 0 }\<close>.\<close>

definition zero_TPCANMsg :: TPCANMsg where
  "zero_TPCANMsg = \<lparr>ID = 0, MSGTYPE = 0, LEN = 0, DATA = replicate 8 0\<rparr>"

subsection \<open>Data of the program\<close>

text \<open>The struct \<^verbatim>\<open>can_message\<close> of can.h: \<^verbatim>\<open>Uint16 id; Uint8 length; Uint8 data[8]\<close>.\<close>

record can_message_t =
  id_msg :: Uint16
  length_msg :: Uint8
  data_msg :: "Uint8 list"

text \<open>
  Modelled from the spec: core.h, which declares \<^verbatim>\<open>core_t\<close>, is not among the sources.
  The record holds the fields can.c reads and writes, typed as can.c uses them; they are the
  ChannelState of the spec (\<open>is_open\<close>, \<open>baud_rate\<close>, \<open>last_status\<close>) together with the
  shared stop flag and the handle of the monitor thread. The field behind the accessor
  \<open>is_can_initialised\<close> carries a suffix, since the accessor has the same name in C.
\<close>

type_synonym SDL_Thread_ptr = "nat option"

record core_t =
  is_running :: bool
  baud_rate :: Uint8
  can_status :: Uint32
  is_can_initialised_f :: bool
  can_monitor_th :: SDL_Thread_ptr

text \<open>A \<^verbatim>\<open>core_t*\<close> argument: the null pointer, or the address of the program's core object.\<close>

datatype core_ptr = NULL | Core

text \<open>
  Modelled from the spec: printf.h, which declares \<^verbatim>\<open>c_log\<close> and its levels, is not
  among the sources; the two levels can.c passes are kept.
\<close>

datatype log_level = LOG_SUCCESS | LOG_WARNING

text \<open>
  Every call that leaves the program (driver, SDL, logging) is recorded, in order, with the
  arguments that vary. The channel is always \<^verbatim>\<open>PCAN_USBBUS1\<close>.
\<close>

datatype event =
    CAN_Initialize TPCANBaudrate
  | CAN_Uninitialize
  | CAN_GetStatus
  | CAN_GetErrorText Uint32
  | CAN_Write TPCANMsg
  | CAN_Read
  | c_log log_level string
  | c_print_prompt
  | SDL_Delay nat
  | SDL_CreateThread
  | SDL_DetachThread SDL_Thread_ptr
  | SDL_LogWarn string

record world =
  core :: core_t
  trace :: "event list"

definition emit :: "event list \<Rightarrow> world \<Rightarrow> world" where
  "emit es w = w\<lparr>trace := trace w @ es\<rparr>"

text \<open>The frames handed to the driver's write primitive, oldest first.\<close>

fun written :: "event list \<Rightarrow> TPCANMsg list" where
  "written [] = []"
| "written (CAN_Write m # es) = m # written es"
| "written (_ # es) = written es"

text \<open>The bit rates of the open attempts, oldest first.\<close>

fun opened :: "event list \<Rightarrow> TPCANBaudrate list" where
  "opened [] = []"
| "opened (CAN_Initialize b # es) = b # opened es"
| "opened (_ # es) = opened es"

subsection \<open>can.c: lifecycle\<close>

text \<open>\<^verbatim>\<open>SDL_CreateThread\<close> returns the handle \<open>th\<close>.\<close>

fun can_init :: "core_ptr \<Rightarrow> SDL_Thread_ptr \<Rightarrow> world \<Rightarrow> world" where
  "can_init NULL th w = w"
| "can_init Core th w =
     emit [SDL_CreateThread] (w\<lparr>core := (core w)\<lparr>can_monitor_th := th\<rparr>\<rparr>)"

fun can_deinit :: "core_ptr \<Rightarrow> world \<Rightarrow> world" where
  "can_deinit NULL w = w"
| "can_deinit Core w =
     emit [CAN_Uninitialize]
       (w\<lparr>core := (core w)\<lparr>can_status := 0, is_can_initialised_f := False\<rparr>\<rparr>)"

fun is_can_initialised :: "core_ptr \<Rightarrow> world \<Rightarrow> bool" where
  "is_can_initialised NULL w = False"
| "is_can_initialised Core w = is_can_initialised_f (core w)"

fun can_quit :: "core_ptr \<Rightarrow> world \<Rightarrow> world" where
  "can_quit NULL w = w"
| "can_quit Core w =
     (let w1 = (if is_can_initialised Core w then can_deinit Core w else w)
      in emit [SDL_DetachThread (can_monitor_th (core w1))] w1)"

fun can_set_baud_rate :: "Uint8 \<Rightarrow> core_ptr \<Rightarrow> world \<Rightarrow> world" where
  "can_set_baud_rate command NULL w = w"
| "can_set_baud_rate command Core w =
     (let w1 = w\<lparr>core := (core w)\<lparr>baud_rate := command\<rparr>\<rparr>
      in if is_can_initialised Core w1 then can_deinit Core w1 else w1)"

subsection \<open>can.c: frame write and read\<close>

text \<open>The copy loop of \<open>can_write\<close>: \<^verbatim>\<open>pcan_message.DATA[index] = message->data[index]\<close>.\<close>

function can_write_loop :: "nat \<Rightarrow> can_message_t \<Rightarrow> TPCANMsg \<Rightarrow> TPCANMsg" where
  "can_write_loop index message pcan_message =
     (if index < 8
      then can_write_loop (index + 1) message
             (pcan_message\<lparr>DATA := (DATA pcan_message)[index := data_msg message ! index]\<rparr>)
      else pcan_message)"
  by pat_completeness auto
termination
  by (relation "measure (\<lambda>(index, message, pcan_message). 8 - index)") auto

declare can_write_loop.simps [simp del]

text \<open>The wire frame \<open>can_write\<close> builds before it calls the driver.\<close>

definition can_write_message :: "can_message_t \<Rightarrow> TPCANMsg" where
  "can_write_message message =
     can_write_loop 0 message
       (zero_TPCANMsg\<lparr>ID := ucast (id_msg message),
                      MSGTYPE := PCAN_MESSAGE_STANDARD,
                      LEN := length_msg message\<rparr>)"

text \<open>\<open>status\<close> is what \<^verbatim>\<open>CAN_Write\<close> returns.\<close>

definition can_write :: "can_message_t \<Rightarrow> Uint32 \<Rightarrow> world \<Rightarrow> Uint32 \<times> world" where
  "can_write message status w = (status, emit [CAN_Write (can_write_message message)] w)"

text \<open>The copy loop of \<open>can_read\<close>: \<^verbatim>\<open>message->data[index] = pcan_message.DATA[index]\<close>.\<close>

function can_read_loop :: "nat \<Rightarrow> TPCANMsg \<Rightarrow> can_message_t \<Rightarrow> can_message_t" where
  "can_read_loop index pcan_message message =
     (if index < 8
      then can_read_loop (index + 1) pcan_message
             (message\<lparr>data_msg := (data_msg message)[index := DATA pcan_message ! index]\<rparr>)
      else message)"
  by pat_completeness auto
termination
  by (relation "measure (\<lambda>(index, pcan_message, message). 8 - index)") auto

declare can_read_loop.simps [simp del]

text \<open>What \<open>can_read\<close> stores into \<^verbatim>\<open>*message\<close> from the driver's buffer.\<close>

definition can_read_message :: "TPCANMsg \<Rightarrow> can_message_t \<Rightarrow> can_message_t" where
  "can_read_message pcan_message message =
     can_read_loop 0 pcan_message
       (message\<lparr>id_msg := ucast (ID pcan_message), length_msg := LEN pcan_message\<rparr>)"

text \<open>
  \<^verbatim>\<open>CAN_Read\<close> returns \<open>status\<close> and leaves \<open>pcan_message\<close> in the buffer (the zero
  message when it stores nothing). The result is the status and the caller's message.
\<close>

definition can_read ::
  "can_message_t \<Rightarrow> Uint32 \<times> TPCANMsg \<Rightarrow> world \<Rightarrow> (Uint32 \<times> can_message_t) \<times> world" where
  "can_read message reply w =
     (case reply of (status, pcan_message) \<Rightarrow>
        ((status, can_read_message pcan_message message), emit [CAN_Read] w))"

text \<open>
  The Lua binding: the four checked integers are its arguments, the result is the number
  of Lua results it announces. The initialiser \<^verbatim>\<open>can_message_t message = { 0 }\<close> comes first.
\<close>

definition zero_can_message :: can_message_t where
  "zero_can_message = \<lparr>id_msg = 0, length_msg = 0, data_msg = replicate 8 0\<rparr>"

definition lua_can_write ::
  "Uint32 \<Rightarrow> Uint32 \<Rightarrow> Uint32 \<Rightarrow> Uint32 \<Rightarrow> Uint32 \<Rightarrow> world \<Rightarrow> int \<times> world" where
  "lua_can_write can_id len data_d0_d3 data_d4_d7 status w =
     (let message = zero_can_message\<lparr>id_msg := ucast can_id, length_msg := ucast len\<rparr>;
          d = data_msg message;
          d = d[3 := ucast (data_d0_d3 AND 0xff)];
          d = d[2 := ucast (drop_bit 8 data_d0_d3 AND 0xff)];
          d = d[1 := ucast (drop_bit 16 data_d0_d3 AND 0xff)];
          d = d[0 := ucast (drop_bit 24 data_d0_d3 AND 0xff)];
          d = d[7 := ucast (data_d4_d7 AND 0xff)];
          d = d[6 := ucast (drop_bit 8 data_d4_d7 AND 0xff)];
          d = d[5 := ucast (drop_bit 16 data_d4_d7 AND 0xff)];
          d = d[4 := ucast (drop_bit 24 data_d4_d7 AND 0xff)];
          (r, w') = can_write (message\<lparr>data_msg := d\<rparr>) status w
      in if 0 \<noteq> r then (0, w') else (1, w'))"

subsection \<open>can.c: the monitor\<close>

text \<open>
  The switch over \<^verbatim>\<open>core->baud_rate\<close>. The labels \<^verbatim>\<open>case 3\<close> and \<^verbatim>\<open>default\<close> stand on
  the same statement, so every value without a label of its own takes the branch of 3.
\<close>

definition select_baud_rate :: "Uint8 \<Rightarrow> TPCANBaudrate" where
  "select_baud_rate b =
     (if b = 0 then PCAN_BAUD_1M
      else if b = 1 then PCAN_BAUD_800K
      else if b = 2 then PCAN_BAUD_500K
      else if b = 4 then PCAN_BAUD_125K
      else if b = 5 then PCAN_BAUD_100K
      else if b = 6 then PCAN_BAUD_95K
      else if b = 7 then PCAN_BAUD_83K
      else if b = 8 then PCAN_BAUD_50K
      else if b = 9 then PCAN_BAUD_47K
      else if b = 10 then PCAN_BAUD_33K
      else if b = 11 then PCAN_BAUD_20K
      else if b = 12 then PCAN_BAUD_10K
      else if b = 13 then PCAN_BAUD_5K
      else PCAN_BAUD_250K)"

text \<open>
  One pass of the inner loop (lines 237 to 302): the open attempt. \<open>status\<close> is what
  \<^verbatim>\<open>CAN_Initialize\<close> returns.
\<close>

definition monitor_connect :: "Uint32 \<Rightarrow> world \<Rightarrow> world" where
  "monitor_connect status w =
     (let w1 = emit [CAN_Initialize (select_baud_rate (baud_rate (core w)))]
                 (w\<lparr>core := (core w)\<lparr>can_status := status\<rparr>\<rparr>);
          w2 = emit [CAN_GetErrorText (can_status (core w1))] w1;
          w3 = (if (can_status (core w2) AND PCAN_ERROR_OK) = can_status (core w2)
                then emit [c_log LOG_SUCCESS ''CAN successfully initialised'', c_print_prompt]
                       (w2\<lparr>core := (core w2)\<lparr>is_can_initialised_f := True\<rparr>\<rparr>)
                else w2)
      in emit [SDL_Delay 10] w3)"

text \<open>
  The rest of the outer loop's body (lines 305 to 316): the status poll. \<open>status\<close> is what
  \<^verbatim>\<open>CAN_GetStatus\<close> returns.
\<close>

definition monitor_poll :: "Uint32 \<Rightarrow> world \<Rightarrow> world" where
  "monitor_poll status w =
     (let w1 = emit [CAN_GetStatus] (w\<lparr>core := (core w)\<lparr>can_status := status\<rparr>\<rparr>);
          w2 = (if PCAN_ERROR_ILLHW = can_status (core w1)
                then emit [CAN_Uninitialize,
                           c_log LOG_WARNING ''CAN de-initialised: USB-dongle removed?'',
                           c_print_prompt]
                       (w1\<lparr>core := (core w1)\<lparr>can_status := 0, is_can_initialised_f := False\<rparr>\<rparr>)
                else w1)
      in emit [SDL_Delay 10] w2)"

text \<open>
  The two nested loops. A position is the loop test about to be evaluated. Each pass
  through a body makes one driver call that returns a status and ends with the 10 ms
  delay: a tick. The statuses the driver returns are the list \<open>rs\<close>, one per tick; when
  they are used up and the function has not returned, the result is \<open>None\<close> (the thread
  is still in the loop). \<open>Some 0\<close> is \<^verbatim>\<open>return 0\<close>.
\<close>

datatype position = Outer_test | Inner_test

function can_monitor_loop :: "position \<Rightarrow> Uint32 list \<Rightarrow> world \<Rightarrow> int option \<times> world" where
  "can_monitor_loop Outer_test rs w =
     (if is_running (core w) then can_monitor_loop Inner_test rs w else (Some 0, w))"
| "can_monitor_loop Inner_test [] w = (None, w)"
| "can_monitor_loop Inner_test (r # rs) w =
     (if \<not> is_can_initialised Core w
      then can_monitor_loop Inner_test rs (monitor_connect r w)
      else can_monitor_loop Outer_test rs (monitor_poll r w))"
  by pat_completeness auto
termination
  by (relation "measure (\<lambda>(p, rs, w). 2 * length rs + (if p = Outer_test then 1 else 0))") auto

fun can_monitor :: "core_ptr \<Rightarrow> Uint32 list \<Rightarrow> world \<Rightarrow> int option \<times> world" where
  "can_monitor NULL rs w = (Some 1, w)"
| "can_monitor Core rs w =
     can_monitor_loop Outer_test rs (w\<lparr>core := (core w)\<lparr>baud_rate := 3\<rparr>\<rparr>)"

text \<open>
  The row \<open>can_print_baud_rate_help\<close> marks as active: \<^verbatim>\<open>status_index\<close> after its clamp.
\<close>

definition status_index :: "core_t \<Rightarrow> nat" where
  "status_index c = (if unat (baud_rate c) > 13 then 13 else unat (baud_rate c))"

subsection \<open>sdo_client.c\<close>

text \<open>
  Modelled from the spec: sdo_client.h, which declares the enumeration \<^verbatim>\<open>data_type_t\<close>,
  is not among the sources; a value of it is the integer it stands for.
\<close>

type_synonym data_type_t = Uint32

text \<open>
  The frame \<open>write_sdo\<close> hands to the driver. \<^verbatim>\<open>TPCANMsg can_message\<close> has no initialiser:
  \<open>uninit\<close> is whatever the stack holds, and the data bytes stay as they are.
\<close>

definition write_sdo_message :: "data_type_t \<Rightarrow> Uint8 \<Rightarrow> TPCANMsg \<Rightarrow> TPCANMsg" where
  "write_sdo_message data_type node_id uninit =
     (let node_id = (if node_id > 0x7f then 0x00 + (node_id mod 0x7f) else node_id)
      in uninit\<lparr>ID := 0x600 + ucast node_id,
                MSGTYPE := PCAN_MESSAGE_STANDARD,
                LEN := ucast data_type\<rparr>)"

text \<open>\<open>status\<close> is what \<^verbatim>\<open>CAN_Write\<close> returns; the error text is the driver's.\<close>

definition write_sdo ::
  "Uint8 \<Rightarrow> Uint16 \<Rightarrow> data_type_t \<Rightarrow> Uint32 \<Rightarrow> Uint8 \<Rightarrow> TPCANMsg \<Rightarrow> Uint32 \<Rightarrow> world
     \<Rightarrow> Uint32 \<times> world" where
  "write_sdo index sub_index data_type data node_id uninit status w =
     (let w1 = emit [CAN_Write (write_sdo_message data_type node_id uninit)] w;
          w2 = (if PCAN_ERROR_OK \<noteq> status
                then emit [CAN_GetErrorText status, SDL_LogWarn ''Could not write SDO: %s''] w1
                else w1)
      in (status, w2))"

subsection \<open>What the specification speaks of\<close>

text \<open>
  The table of the fourteen bit rates as \<open>can_print_baud_rate_help\<close> prints it, row 0
  (1 MBit/s) to row 13 (5 kBit/s), each row as the driver's rate of that name.
\<close>

definition baud_rate_table :: "TPCANBaudrate list" where
  "baud_rate_table =
     [PCAN_BAUD_1M, PCAN_BAUD_800K, PCAN_BAUD_500K, PCAN_BAUD_250K, PCAN_BAUD_125K,
      PCAN_BAUD_100K, PCAN_BAUD_95K, PCAN_BAUD_83K, PCAN_BAUD_50K, PCAN_BAUD_47K,
      PCAN_BAUD_33K, PCAN_BAUD_20K, PCAN_BAUD_10K, PCAN_BAUD_5K]"

text \<open>
  A valid frame in the words of the specification: an 11-bit identifier, a length of at
  most 8 and a payload of eight bytes.
\<close>

definition valid_frame :: "can_message_t \<Rightarrow> bool" where
  "valid_frame m \<longleftrightarrow> id_msg m \<le> 0x7FF \<and> length_msg m \<le> 8 \<and> length (data_msg m) = 8"

subsection \<open>Sample inputs\<close>

definition disconnected_world :: world where
  "disconnected_world =
     \<lparr>core = \<lparr>is_running = True, baud_rate = 3, can_status = 0,
              is_can_initialised_f = False, can_monitor_th = Some 1\<rparr>,
      trace = []\<rparr>"

definition connected_world :: world where
  "connected_world =
     \<lparr>core = \<lparr>is_running = True, baud_rate = 3, can_status = 0,
              is_can_initialised_f = True, can_monitor_th = Some 1\<rparr>,
      trace = []\<rparr>"

text \<open>The stop flag is cleared while the monitor is retrying, no adapter attached.\<close>

definition stopped_world :: world where
  "stopped_world =
     \<lparr>core = \<lparr>is_running = False, baud_rate = 3, can_status = 0,
              is_can_initialised_f = False, can_monitor_th = Some 1\<rparr>,
      trace = []\<rparr>"

definition sample_frame :: can_message_t where
  "sample_frame = \<lparr>id_msg = 0x123, length_msg = 2, data_msg = [0xDE, 0xAD, 0, 0, 0, 0, 0, 0]\<rparr>"

text \<open>A frame whose identifier needs twelve bits.\<close>

definition wide_frame :: can_message_t where
  "wide_frame = \<lparr>id_msg = 0x800, length_msg = 0, data_msg = [0, 0, 0, 0, 0, 0, 0, 0]\<rparr>"

section \<open>Properties\<close>

subsection \<open>Traces\<close>

lemma trace_emit [simp]: "trace (emit es w) = trace w @ es"
  by (simp add: emit_def)

lemma core_emit [simp]: "core (emit es w) = core w"
  by (simp add: emit_def)

lemma written_append [simp]: "written (xs @ ys) = written xs @ written ys"
  by (induction xs rule: written.induct) simp_all

lemma opened_append [simp]: "opened (xs @ ys) = opened xs @ opened ys"
  by (induction xs rule: opened.induct) simp_all

subsection \<open>Null pointers\<close>

text \<open>
  C10. With a null core pointer \<open>can_init\<close>, \<open>can_deinit\<close>, \<open>can_quit\<close> and
  \<open>can_set_baud_rate\<close> return at once: neither the core object nor the trace of outside
  calls changes. \<open>is_can_initialised\<close> answers false.
\<close>

theorem null_core_no_effect:
  "can_init NULL th w = w \<and> can_deinit NULL w = w \<and> can_quit NULL w = w \<and>
   can_set_baud_rate command NULL w = w \<and> is_can_initialised NULL w = False"
  by simp

subsection \<open>Changing the bit rate\<close>

text \<open>
  C5. \<open>can_set_baud_rate\<close> on the core object always stores the new rate. When the
  channel is open it also closes the handle (one \<^verbatim>\<open>CAN_Uninitialize\<close>) and resets the
  status and the flag; when the channel is not open, the stored rate is the only change
  and no outside call is made.
\<close>

theorem can_set_baud_rate_effect:
  "baud_rate (core (can_set_baud_rate command Core w)) = command \<and>
   (is_can_initialised Core w \<longrightarrow>
      can_set_baud_rate command Core w =
        w\<lparr>core := (core w)\<lparr>baud_rate := command, can_status := 0,
                           is_can_initialised_f := False\<rparr>,
          trace := trace w @ [CAN_Uninitialize]\<rparr>) \<and>
   (\<not> is_can_initialised Core w \<longrightarrow>
      can_set_baud_rate command Core w = w\<lparr>core := (core w)\<lparr>baud_rate := command\<rparr>\<rparr>)"
  by (simp add: emit_def Let_def)

theorem can_set_baud_rate_effect_witness:
  "is_can_initialised Core connected_world \<and>
   can_set_baud_rate 5 Core connected_world =
     \<lparr>core = \<lparr>is_running = True, baud_rate = 5, can_status = 0,
              is_can_initialised_f = False, can_monitor_th = Some 1\<rparr>,
      trace = [CAN_Uninitialize]\<rparr> \<and>
   \<not> is_can_initialised Core disconnected_world \<and>
   can_set_baud_rate 5 Core disconnected_world =
     \<lparr>core = \<lparr>is_running = True, baud_rate = 5, can_status = 0,
              is_can_initialised_f = False, can_monitor_th = Some 1\<rparr>,
      trace = []\<rparr>"
  using can_set_baud_rate_effect [of 5 connected_world]
    can_set_baud_rate_effect [of 5 disconnected_world]
  by (simp add: connected_world_def disconnected_world_def)

subsection \<open>The frame codec\<close>

text \<open>The copy loops touch the payload only.\<close>

lemma can_write_loop_fields:
  "ID (can_write_loop index message pcan_message) = ID pcan_message \<and>
   MSGTYPE (can_write_loop index message pcan_message) = MSGTYPE pcan_message \<and>
   LEN (can_write_loop index message pcan_message) = LEN pcan_message"
proof (induction index message pcan_message rule: can_write_loop.induct)
  case (1 index message pcan_message)
  then show ?case by (subst (1 2 3) can_write_loop.simps) simp
qed

lemma can_read_loop_fields:
  "id_msg (can_read_loop index pcan_message message) = id_msg message \<and>
   length_msg (can_read_loop index pcan_message message) = length_msg message"
proof (induction index pcan_message message rule: can_read_loop.induct)
  case (1 index pcan_message message)
  then show ?case by (subst (1 2) can_read_loop.simps) simp
qed

text \<open>
  Loop invariant: started at \<open>index\<close>, the loop keeps the bytes below \<open>index\<close> and copies
  the others from the source array.
\<close>

lemma DATA_can_write_loop:
  "index \<le> 8 \<Longrightarrow> length (data_msg message) = 8 \<Longrightarrow> length (DATA pcan_message) = 8 \<Longrightarrow>
   DATA (can_write_loop index message pcan_message) =
     take index (DATA pcan_message) @ drop index (data_msg message)"
proof (induction index message pcan_message rule: can_write_loop.induct)
  case (1 index message pcan_message)
  show ?case
  proof (cases "index < 8")
    case True
    with 1 show ?thesis
      by (subst can_write_loop.simps) (simp add: take_Suc_conv_app_nth Cons_nth_drop_Suc)
  next
    case False
    with 1 show ?thesis by (subst can_write_loop.simps) simp
  qed
qed

lemma data_can_read_loop:
  "index \<le> 8 \<Longrightarrow> length (DATA pcan_message) = 8 \<Longrightarrow> length (data_msg message) = 8 \<Longrightarrow>
   data_msg (can_read_loop index pcan_message message) =
     take index (data_msg message) @ drop index (DATA pcan_message)"
proof (induction index pcan_message message rule: can_read_loop.induct)
  case (1 index pcan_message message)
  show ?case
  proof (cases "index < 8")
    case True
    with 1 show ?thesis
      by (subst can_read_loop.simps) (simp add: take_Suc_conv_app_nth Cons_nth_drop_Suc)
  next
    case False
    with 1 show ?thesis by (subst can_read_loop.simps) simp
  qed
qed

lemma can_write_message_eq:
  "length (data_msg m) = 8 \<Longrightarrow>
   can_write_message m =
     \<lparr>ID = ucast (id_msg m), MSGTYPE = PCAN_MESSAGE_STANDARD, LEN = length_msg m,
      DATA = data_msg m\<rparr>"
  by (rule TPCANMsg.equality)
     (simp_all add: can_write_message_def can_write_loop_fields DATA_can_write_loop
        zero_TPCANMsg_def)

lemma can_read_message_eq:
  "length (DATA p) = 8 \<Longrightarrow> length (data_msg buffer) = 8 \<Longrightarrow>
   can_read_message p buffer =
     \<lparr>id_msg = ucast (ID p), length_msg = LEN p, data_msg = DATA p\<rparr>"
  by (rule can_message_t.equality)
     (simp_all add: can_read_message_def can_read_loop_fields data_can_read_loop)

text \<open>Widening \<^verbatim>\<open>Uint16\<close> to the driver's 32-bit identifier and narrowing it again.\<close>

lemma ucast_16_32_16: "(ucast (ucast (x :: Uint16) :: Uint32) :: Uint16) = x"
  by (rule ucast_up_ucast_id) (simp add: is_up)

lemma unat_ucast_16_32: "unat (ucast (x :: Uint16) :: Uint32) = unat x"
proof -
  have "unat x < 2 ^ 32"
    using unsigned_less [of x, where 'a = nat] by simp
  then show ?thesis
    by (simp add: unsigned_ucast_eq take_bit_nat_eq_self)
qed

text \<open>
  C6. Round trip. \<open>can_write\<close> hands the wire frame \<open>can_write_message message\<close> to the
  driver; when the driver's read returns that same wire frame, \<open>can_read\<close> leaves in the
  caller's buffer (any \<^verbatim>\<open>can_message_t\<close>) a frame equal to the original, for every valid
  frame. The statuses \<open>s1\<close> and \<open>s2\<close> of the two driver calls are arbitrary.
\<close>

theorem frame_round_trip:
  assumes "valid_frame message" and "length (data_msg buffer) = 8"
  shows "snd (can_write message s1 w) = emit [CAN_Write (can_write_message message)] w \<and>
         fst (can_read buffer (s2, can_write_message message) w') = (s2, message)"
  using assms
  by (simp add: can_write_def can_read_def valid_frame_def can_write_message_eq
        can_read_message_eq ucast_16_32_16)

theorem frame_round_trip_witness:
  "valid_frame sample_frame \<and> length (data_msg wide_frame) = 8 \<and>
   fst (can_read wide_frame (0, can_write_message sample_frame) connected_world)
     = (0, sample_frame)"
proof -
  have v: "valid_frame sample_frame"
    by (simp add: valid_frame_def sample_frame_def)
  have l: "length (data_msg wide_frame) = 8"
    by (simp add: wide_frame_def)
  from frame_round_trip [OF v l, of 0 connected_world 0 connected_world] v l
  show ?thesis by simp
qed

text \<open>
  C7, as the code has it. \<open>can_write\<close> never rejects a frame and never changes its
  identifier: the wire frame carries the 16-bit identifier of the message, zero-extended
  to the driver's 32-bit field, marked as a standard frame, for every message and so also
  for identifiers above 0x7FF.
\<close>

theorem can_write_keeps_identifier:
  "ID (can_write_message message) = ucast (id_msg message) \<and>
   unat (ID (can_write_message message)) = unat (id_msg message) \<and>
   MSGTYPE (can_write_message message) = PCAN_MESSAGE_STANDARD \<and>
   written (trace (snd (can_write message status w))) =
     written (trace w) @ [can_write_message message]"
  by (simp add: can_write_def can_write_message_def can_write_loop_fields unat_ucast_16_32)

text \<open>
  C7 as stated fails: identifier 0x800 is outside the standard range and reaches the
  driver unchanged.
\<close>

theorem can_write_identifier_counterexample:
  "(0x7FF :: Uint16) < id_msg wide_frame \<and>
   written (trace (snd (can_write wide_frame 0 connected_world))) =
     [\<lparr>ID = 0x800, MSGTYPE = PCAN_MESSAGE_STANDARD, LEN = 0,
       DATA = [0, 0, 0, 0, 0, 0, 0, 0]\<rparr>]"
  by (simp add: can_write_def can_write_message_eq wide_frame_def connected_world_def)

text \<open>
  C2, as the code has it. \<open>can_write\<close> takes no core pointer and makes no test of the
  connection: in every state it calls the driver's write primitive once with the wire
  frame, leaves the core object alone and returns the driver's status as it is.
  \<open>lua_can_write\<close> reaches the driver the same way, once per call.
\<close>

theorem can_write_unconditional:
  "fst (can_write message status w) = status \<and>
   core (snd (can_write message status w)) = core w \<and>
   trace (snd (can_write message status w)) = trace w @ [CAN_Write (can_write_message message)] \<and>
   length (written (trace (snd (lua_can_write can_id len data_d0_d3 data_d4_d7 status w))))
     = length (written (trace w)) + 1"
  by (simp add: can_write_def lua_can_write_def Let_def)

text \<open>
  C2 as stated fails: with the channel not initialised, \<open>can_write\<close> calls the driver's
  write primitive, and its result is the driver's status (here 0, success), not a
  failure of its own.
\<close>

theorem can_write_disconnected_counterexample:
  "\<not> is_can_initialised Core disconnected_world \<and>
   fst (can_write sample_frame 0 disconnected_world) = 0 \<and>
   trace (snd (can_write sample_frame 0 disconnected_world)) =
     [CAN_Write \<lparr>ID = 0x123, MSGTYPE = PCAN_MESSAGE_STANDARD, LEN = 2,
                 DATA = [0xDE, 0xAD, 0, 0, 0, 0, 0, 0]\<rparr>]"
  by (simp add: can_write_def can_write_message_eq sample_frame_def disconnected_world_def)

subsection \<open>The monitor: one tick\<close>

lemma monitor_connect_opened:
  "opened (trace (monitor_connect r w)) =
     opened (trace w) @ [select_baud_rate (baud_rate (core w))]"
  by (simp add: monitor_connect_def Let_def)

lemma monitor_connect_baud_rate:
  "baud_rate (core (monitor_connect r w)) = baud_rate (core w)"
  by (simp add: monitor_connect_def Let_def)

lemma monitor_connect_failed:
  "\<not> is_can_initialised_f (core w) \<Longrightarrow> (r AND PCAN_ERROR_OK) \<noteq> r \<Longrightarrow>
   \<not> is_can_initialised_f (core (monitor_connect r w))"
  by (simp add: monitor_connect_def Let_def)

lemma monitor_poll_opened: "opened (trace (monitor_poll r w)) = opened (trace w)"
  by (simp add: monitor_poll_def Let_def)

lemma monitor_poll_baud_rate: "baud_rate (core (monitor_poll r w)) = baud_rate (core w)"
  by (simp add: monitor_poll_def Let_def)

lemma monitor_poll_is_running: "is_running (core (monitor_poll r w)) = is_running (core w)"
  by (simp add: monitor_poll_def Let_def)

subsection \<open>The monitor: which bit rate an open attempt uses\<close>

lemma small_nat_cases:
  "n \<le> 13 \<Longrightarrow> n \<in> {0, 1, 2, 3, 4, 5, 6, 7, 8, 9, 10, 11, 12, 13::nat}"
  by simp arith

lemma select_baud_rate_of_nat:
  "n \<le> 13 \<Longrightarrow> select_baud_rate (of_nat n) = baud_rate_table ! n"
  by (drule small_nat_cases) (auto simp: select_baud_rate_def baud_rate_table_def)

lemma select_baud_rate_table:
  assumes "b \<le> 13"
  shows "select_baud_rate b = baud_rate_table ! unat b"
proof -
  from assms have "unat b \<le> 13" by (simp add: word_le_nat_alt)
  then have "select_baud_rate (of_nat (unat b)) = baud_rate_table ! unat b"
    by (rule select_baud_rate_of_nat)
  then show ?thesis by simp
qed

lemma select_baud_rate_default: "13 < b \<Longrightarrow> select_baud_rate b = PCAN_BAUD_250K"
  by (auto simp: select_baud_rate_def)

text \<open>The help table, for its part, marks row 13 as active for every stored value above 13.\<close>

lemma status_index_clamps: "13 < baud_rate c \<Longrightarrow> status_index c = 13"
  by (simp add: status_index_def word_less_nat_alt)

text \<open>
  A tick of the running monitor with the channel not initialised is an open attempt at the
  rate the switch selects from the stored \<open>baud_rate\<close>; for 0 to 13 that is the entry of
  the table at that index.
\<close>

lemma monitor_tick_opens:
  assumes "is_running (core w)" and "\<not> is_can_initialised Core w"
  shows "can_monitor_loop Outer_test (r # rs) w =
           can_monitor_loop Inner_test rs (monitor_connect r w) \<and>
         opened (trace (monitor_connect r w)) =
           opened (trace w) @ [select_baud_rate (baud_rate (core w))] \<and>
         (baud_rate (core w) \<le> 13 \<longrightarrow>
            select_baud_rate (baud_rate (core w)) = baud_rate_table ! unat (baud_rate (core w)))"
  using assms
  by (simp add: monitor_connect_opened select_baud_rate_table)

text \<open>
  C1 at its failing input. \<open>can_set_baud_rate 14\<close> stores 14, a value above 13. The help
  table then marks row 13, 5 kBit/s, as the active rate (\<open>can_print_baud_rate_help\<close>
  clamps the stored value to 13), but the monitor's next open attempt is made at
  250 kBit/s: the switch has no such clamp, its \<^verbatim>\<open>default\<close> label stands with \<^verbatim>\<open>case 3\<close>.
\<close>

theorem monitor_open_rate_above_13:
  "baud_rate (core (can_set_baud_rate 14 Core disconnected_world)) = 14 \<and>
   status_index (core (can_set_baud_rate 14 Core disconnected_world)) = 13 \<and>
   baud_rate_table ! 13 = PCAN_BAUD_5K \<and>
   opened (trace (snd (can_monitor_loop Outer_test [0]
      (can_set_baud_rate 14 Core disconnected_world)))) = [PCAN_BAUD_250K] \<and>
   PCAN_BAUD_250K \<noteq> PCAN_BAUD_5K"
  by (simp add: disconnected_world_def monitor_connect_opened select_baud_rate_def
        baud_rate_table_def status_index_def)

subsection \<open>The monitor: the rate after start\<close>

text \<open>
  The monitor never writes \<open>baud_rate\<close> inside its loops, so every open attempt of a run
  uses the rate selected by the value the loop was entered with.
\<close>

lemma can_monitor_loop_rate:
  "baud_rate (core (snd (can_monitor_loop p rs w))) = baud_rate (core w) \<and>
   (\<exists>k. opened (trace (snd (can_monitor_loop p rs w))) =
          opened (trace w) @ replicate k (select_baud_rate (baud_rate (core w))))"
proof (induction p rs w rule: can_monitor_loop.induct)
  case (1 rs w)
  then show ?case by simp
next
  case (2 w)
  show ?case by simp
next
  case (3 r rs w)
  show ?case
  proof (cases "is_can_initialised Core w")
    case False
    with 3 obtain k where
      "opened (trace (snd (can_monitor_loop Inner_test rs (monitor_connect r w)))) =
         opened (trace w) @ replicate (Suc k) (select_baud_rate (baud_rate (core w)))"
      by (auto simp: monitor_connect_opened monitor_connect_baud_rate)
    with False 3 show ?thesis
      by (simp add: monitor_connect_baud_rate del: replicate.simps)
  next
    case True
    with 3 show ?thesis
      by (simp add: monitor_poll_opened monitor_poll_baud_rate)
  qed
qed

text \<open>
  C8. \<open>can_monitor\<close> stores rate index 3 before it enters its loop. However long it then
  runs and whatever the driver answers, as long as nothing else writes \<open>baud_rate\<close>, the
  stored index is 3 and every open attempt it makes is at 250 kBit/s, the entry of the
  table at index 3.
\<close>

theorem monitor_default_rate:
  "baud_rate (core (snd (can_monitor Core rs w))) = 3 \<and>
   (\<exists>k. opened (trace (snd (can_monitor Core rs w))) =
          opened (trace w) @ replicate k PCAN_BAUD_250K) \<and>
   baud_rate_table ! 3 = PCAN_BAUD_250K"
  using can_monitor_loop_rate [of Outer_test rs "w\<lparr>core := (core w)\<lparr>baud_rate := 3\<rparr>\<rparr>"]
  by (simp add: select_baud_rate_def baud_rate_table_def)

theorem monitor_default_rate_witness:
  "baud_rate (core (snd (can_monitor Core [PCAN_ERROR_ILLHW, 0, 0]
      \<lparr>core = \<lparr>is_running = True, baud_rate = 0, can_status = 0,
               is_can_initialised_f = False, can_monitor_th = None\<rparr>,
       trace = []\<rparr>))) = 3 \<and>
   opened (trace (snd (can_monitor Core [PCAN_ERROR_ILLHW, 0, 0]
      \<lparr>core = \<lparr>is_running = True, baud_rate = 0, can_status = 0,
               is_can_initialised_f = False, can_monitor_th = None\<rparr>,
       trace = []\<rparr>))) = [PCAN_BAUD_250K, PCAN_BAUD_250K]"
  using monitor_default_rate [of "[PCAN_ERROR_ILLHW, 0, 0]"
      "\<lparr>core = \<lparr>is_running = True, baud_rate = 0, can_status = 0,
                is_can_initialised_f = False, can_monitor_th = None\<rparr>,
        trace = []\<rparr>"]
  by (simp add: monitor_connect_def monitor_poll_def Let_def PCAN_ERROR_OK_def
        PCAN_ERROR_ILLHW_def select_baud_rate_def)

subsection \<open>The monitor: hardware removal\<close>

text \<open>
  C4. A tick taken while the channel is initialised, in which \<^verbatim>\<open>CAN_GetStatus\<close> returns
  \<^verbatim>\<open>PCAN_ERROR_ILLHW\<close>, ends with the flag cleared and the stored status 0, the other
  fields as they were; the outside calls of the tick are the poll, \<^verbatim>\<open>CAN_Uninitialize\<close>,
  the warning, the prompt and the delay. Control is then at the outer test, and if the
  monitor is still running the next tick is an open attempt at the stored rate.
\<close>

theorem hardware_removed_tick:
  assumes "is_can_initialised Core w"
  shows "can_monitor_loop Inner_test (PCAN_ERROR_ILLHW # rs) w =
           can_monitor_loop Outer_test rs (monitor_poll PCAN_ERROR_ILLHW w) \<and>
         \<not> is_can_initialised Core (monitor_poll PCAN_ERROR_ILLHW w) \<and>
         core (monitor_poll PCAN_ERROR_ILLHW w) =
           (core w)\<lparr>can_status := 0, is_can_initialised_f := False\<rparr> \<and>
         trace (monitor_poll PCAN_ERROR_ILLHW w) =
           trace w @ [CAN_GetStatus, CAN_Uninitialize,
                      c_log LOG_WARNING ''CAN de-initialised: USB-dongle removed?'',
                      c_print_prompt, SDL_Delay 10] \<and>
         (is_running (core w) \<longrightarrow>
            can_monitor_loop Outer_test (r # rs') (monitor_poll PCAN_ERROR_ILLHW w) =
              can_monitor_loop Inner_test rs'
                (monitor_connect r (monitor_poll PCAN_ERROR_ILLHW w)) \<and>
            opened (trace (monitor_connect r (monitor_poll PCAN_ERROR_ILLHW w))) =
              opened (trace w) @ [select_baud_rate (baud_rate (core w))])"
proof -
  have c: "core (monitor_poll PCAN_ERROR_ILLHW w) =
             (core w)\<lparr>can_status := 0, is_can_initialised_f := False\<rparr>"
    by (simp add: monitor_poll_def Let_def)
  have t: "trace (monitor_poll PCAN_ERROR_ILLHW w) =
             trace w @ [CAN_GetStatus, CAN_Uninitialize,
                        c_log LOG_WARNING ''CAN de-initialised: USB-dongle removed?'',
                        c_print_prompt, SDL_Delay 10]"
    by (simp add: monitor_poll_def Let_def)
  from assms show ?thesis
    by (simp add: c t monitor_connect_opened)
qed

theorem hardware_removed_tick_witness:
  "is_can_initialised Core connected_world \<and> is_running (core connected_world) \<and>
   monitor_poll PCAN_ERROR_ILLHW connected_world =
     \<lparr>core = \<lparr>is_running = True, baud_rate = 3, can_status = 0,
              is_can_initialised_f = False, can_monitor_th = Some 1\<rparr>,
      trace = [CAN_GetStatus, CAN_Uninitialize,
               c_log LOG_WARNING ''CAN de-initialised: USB-dongle removed?'',
               c_print_prompt, SDL_Delay 10]\<rparr> \<and>
   opened (trace (snd (can_monitor_loop Inner_test [PCAN_ERROR_ILLHW, 0] connected_world)))
     = [PCAN_BAUD_250K]"
proof -
  have i: "is_can_initialised Core connected_world"
    by (simp add: connected_world_def)
  have r: "is_running (core connected_world)"
    by (simp add: connected_world_def)
  have e: "monitor_poll PCAN_ERROR_ILLHW connected_world =
     \<lparr>core = \<lparr>is_running = True, baud_rate = 3, can_status = 0,
              is_can_initialised_f = False, can_monitor_th = Some 1\<rparr>,
      trace = [CAN_GetStatus, CAN_Uninitialize,
               c_log LOG_WARNING ''CAN de-initialised: USB-dongle removed?'',
               c_print_prompt, SDL_Delay 10]\<rparr>"
    using hardware_removed_tick [OF i, of "[0]" 0 "[]"]
    by (intro world.equality) (simp_all add: connected_world_def)
  have "opened (trace (snd (can_monitor_loop Inner_test [PCAN_ERROR_ILLHW, 0] connected_world)))
          = [PCAN_BAUD_250K]"
    using hardware_removed_tick [OF i, of "[0]" 0 "[]"] r
    by (simp add: connected_world_def select_baud_rate_def)
  with i r e show ?thesis by simp
qed

subsection \<open>The monitor: the stop flag\<close>

text \<open>
  The outer test reads the stop flag: a monitor that is connected returns at the end of
  the tick in which the flag is found cleared.
\<close>

lemma connected_stop_returns:
  "is_can_initialised Core w \<Longrightarrow> \<not> is_running (core w) \<Longrightarrow>
   can_monitor_loop Inner_test (r # rs) w = (Some 0, monitor_poll r w)"
  by (simp add: monitor_poll_is_running)

text \<open>
  The inner test does not: while every open attempt fails, the monitor stays in the inner
  loop and goes on opening, whatever the stop flag says.
\<close>

lemma retry_loop_never_returns:
  "\<not> is_can_initialised_f (core w) \<Longrightarrow> \<forall>r \<in> set rs. (r AND PCAN_ERROR_OK) \<noteq> r \<Longrightarrow>
   fst (can_monitor_loop Inner_test rs w) = None \<and>
   opened (trace (snd (can_monitor_loop Inner_test rs w))) =
     opened (trace w) @ replicate (length rs) (select_baud_rate (baud_rate (core w)))"
proof (induction rs arbitrary: w)
  case Nil
  show ?case by simp
next
  case (Cons r rs)
  from Cons.prems have f: "\<not> is_can_initialised_f (core (monitor_connect r w))"
    by (simp add: monitor_connect_failed)
  from Cons.prems have "\<forall>r \<in> set rs. (r AND PCAN_ERROR_OK) \<noteq> r"
    by simp
  with f have
    "fst (can_monitor_loop Inner_test rs (monitor_connect r w)) = None \<and>
     opened (trace (snd (can_monitor_loop Inner_test rs (monitor_connect r w)))) =
       opened (trace (monitor_connect r w)) @
         replicate (length rs) (select_baud_rate (baud_rate (core (monitor_connect r w))))"
    by (rule Cons.IH)
  with Cons.prems show ?case
    by (simp add: monitor_connect_opened monitor_connect_baud_rate)
qed

text \<open>
  C3 at its failing input. The stop flag is cleared while the monitor is in its retry loop
  and no adapter answers (every \<^verbatim>\<open>CAN_Initialize\<close> returns \<^verbatim>\<open>PCAN_ERROR_ILLHW\<close>): after
  any number \<open>n\<close> of further ticks the monitor has not returned and has made \<open>n\<close> more open
  attempts.
\<close>

theorem retry_loop_ignores_stop:
  "is_running (core stopped_world) = False \<and>
   fst (can_monitor_loop Inner_test (replicate n PCAN_ERROR_ILLHW) stopped_world) = None \<and>
   opened (trace (snd (can_monitor_loop Inner_test (replicate n PCAN_ERROR_ILLHW) stopped_world)))
     = replicate n PCAN_BAUD_250K"
proof -
  have d: "\<not> is_can_initialised_f (core stopped_world)"
    by (simp add: stopped_world_def)
  have "\<forall>r \<in> set (replicate n PCAN_ERROR_ILLHW). (r AND PCAN_ERROR_OK) \<noteq> r"
    by (simp add: PCAN_ERROR_OK_def PCAN_ERROR_ILLHW_def)
  from retry_loop_never_returns [OF d this] show ?thesis
    by (simp add: stopped_world_def select_baud_rate_def)
qed

subsection \<open>The SDO client\<close>

lemma reduced_node_id:
  fixes node_id :: Uint8
  shows "unat (if node_id > 0x7f then 0x00 + (node_id mod 0x7f) else node_id) \<le> 0x7f"
  by (simp add: word_less_nat_alt unat_mod_distrib)

lemma unat_sdo_id:
  fixes n :: Uint8
  assumes "unat n \<le> 0x7f"
  shows "unat (0x600 + ucast n :: Uint32) = 0x600 + unat n"
proof -
  have u: "unat (ucast n :: Uint32) = unat n"
  proof -
    have "unat n < 2 ^ 32"
      using unsigned_less [of n, where 'a = nat] by simp
    then show ?thesis
      by (simp add: unsigned_ucast_eq take_bit_nat_eq_self)
  qed
  have "unat (0x600 :: Uint32) + unat (ucast n :: Uint32) < 2 ^ LENGTH(32)"
    using assms by (simp add: u)
  then have "unat (0x600 + ucast n :: Uint32) = unat (0x600 :: Uint32) + unat (ucast n :: Uint32)"
    by (rule unat_add_lem [THEN iffD1])
  then show ?thesis by (simp add: u)
qed

lemma unat_write_sdo_message:
  "unat (ID (write_sdo_message data_type node_id uninit)) =
     0x600 + unat (if node_id > 0x7f then 0x00 + (node_id mod 0x7f) else node_id)"
  unfolding write_sdo_message_def Let_def
  using unat_sdo_id [OF reduced_node_id [of node_id]] by simp

text \<open>
  C9. For every node id \<open>write_sdo\<close> hands the driver one frame, and its identifier lies
  between 0x600 and 0x67F: 0x600 plus the node id when that is at most 0x7F, and 0x600
  plus the node id modulo 0x7F otherwise.
\<close>

theorem write_sdo_identifier:
  "written (trace (snd (write_sdo index sub_index data_type data node_id uninit status w))) =
     written (trace w) @ [write_sdo_message data_type node_id uninit] \<and>
   0x600 \<le> ID (write_sdo_message data_type node_id uninit) \<and>
   ID (write_sdo_message data_type node_id uninit) \<le> 0x67F \<and>
   (node_id \<le> 0x7f \<longrightarrow>
      unat (ID (write_sdo_message data_type node_id uninit)) = 0x600 + unat node_id) \<and>
   (0x7f < node_id \<longrightarrow>
      unat (ID (write_sdo_message data_type node_id uninit)) = 0x600 + unat node_id mod 0x7f)"
proof -
  have w: "written (trace (snd (write_sdo index sub_index data_type data node_id uninit status w)))
             = written (trace w) @ [write_sdo_message data_type node_id uninit]"
    by (simp add: write_sdo_def Let_def)
  have lo: "0x600 \<le> ID (write_sdo_message data_type node_id uninit)"
    by (simp add: word_le_nat_alt unat_write_sdo_message)
  have hi: "ID (write_sdo_message data_type node_id uninit) \<le> 0x67F"
    using reduced_node_id [of node_id]
    by (simp add: word_le_nat_alt unat_write_sdo_message)
  have small: "node_id \<le> 0x7f \<longrightarrow>
      unat (ID (write_sdo_message data_type node_id uninit)) = 0x600 + unat node_id"
    by (simp add: unat_write_sdo_message word_less_nat_alt word_le_nat_alt)
  have large: "0x7f < node_id \<longrightarrow>
      unat (ID (write_sdo_message data_type node_id uninit)) = 0x600 + unat node_id mod 0x7f"
    by (simp add: unat_write_sdo_message unat_mod_distrib)
  from w lo hi small large show ?thesis by blast
qed

theorem write_sdo_identifier_witness:
  "(0x10 :: Uint8) \<le> 0x7f \<and>
   ID (write_sdo_message 4 0x10 zero_TPCANMsg) = 0x610 \<and>
   (0x7f :: Uint8) < 0xFE \<and>
   ID (write_sdo_message 4 0xFE zero_TPCANMsg) = 0x600 \<and>
   written (trace (snd (write_sdo 0 0 4 0 0xFE zero_TPCANMsg 0 connected_world))) =
     [write_sdo_message 4 0xFE zero_TPCANMsg]"
  using write_sdo_identifier [of 0 0 4 0 "0x10" zero_TPCANMsg 0 connected_world]
    write_sdo_identifier [of 0 0 4 0 "0xFE" zero_TPCANMsg 0 connected_world]
  by (simp add: write_sdo_message_def connected_world_def)

end
